theory Spec2Isabelle
  imports Main "HOL-Library.Sublist"
begin

section \<open>The usage command of the metadata CLI: \<open>metadata/cli/usage.py\<close>\<close>

text \<open>
  The module holds one function, \<open>run_usage(config_path)\<close>. It loads a configuration
  file, builds a \<open>UsageWorkflow\<close> from it, and drives the workflow through
  \<open>execute\<close>, \<open>stop\<close>, \<open>print_status\<close> and \<open>raise_from_status\<close>. The first two
  calls and a debug line sit in a \<open>try\<close> block whose handler \<open>except Exception\<close> logs
  the stack trace, calls \<open>WorkflowInitErrorHandler.print_init_error\<close> and leaves with
  \<open>sys.exit(1)\<close>.

  Everything \<open>run_usage\<close> calls lives in other modules. The model therefore takes the
  behaviour of each collaborator as a parameter (the record \<open>env\<close>), threads the list
  of calls made so far (the trace) through the function, and returns how the function
  ends: \<open>Inr ()\<close> when it returns \<open>None\<close>, \<open>Inl exc\<close> when \<open>exc\<close> leaves it.
\<close>

subsection \<open>Exceptions\<close>

text \<open>
  Python's exception hierarchy, as far as \<open>except Exception\<close> tells it apart:
  instances of \<open>Exception\<close> (any subclass, named by the string), \<open>SystemExit\<close> with its
  code (what \<open>sys.exit\<close> raises), and the other classes that derive from
  \<open>BaseException\<close> only (\<open>KeyboardInterrupt\<close>, \<open>GeneratorExit\<close>).
\<close>

datatype pyexc =
    Exception string
  | SystemExit int
  | BaseException string

fun isinstance_Exception :: "pyexc \<Rightarrow> bool" where
  "isinstance_Exception (Exception _) = True"
| "isinstance_Exception (SystemExit _) = False"
| "isinstance_Exception (BaseException _) = False"

subsection \<open>Collaborators\<close>

type_synonym path = string

text \<open>
  Modelled from the spec: the enumeration \<open>PipelineType\<close> of the generated schema is
  not part of the source file; the spec calls it WorkflowKind, a closed enumeration
  (metadata extraction, usage analysis, profiling, lineage, test-suite execution).
  \<open>run_usage\<close> only ever names the member \<open>usage\<close>.
\<close>

datatype PipelineType = metadata | usage | profiler | lineage | TestSuite

text \<open>The two messages \<open>run_usage\<close> hands to \<open>logger.debug\<close>:
  \<open>f"Using config: {workflow.config}"\<close> and \<open>traceback.format_exc()\<close>, the stack
  trace of the exception being handled.\<close>

datatype log_msg =
    Using_config string
  | Traceback pyexc

text \<open>One entry of the trace for every call \<open>run_usage\<close> makes, in program order.\<close>

datatype 'cfg event =
    Load_config_file path
  | Create 'cfg
  | Logger_debug log_msg
  | Print_init_error pyexc "'cfg option" PipelineType
  | Sys_exit int
  | Execute
  | Stop
  | Print_status
  | Raise_from_status

text \<open>
  What each collaborator does when called: it returns (\<open>Inr\<close>) or raises (\<open>Inl\<close>).
  The workflow's methods mutate the instance, so they return the instance they leave.
  \<open>config_str\<close> is the evaluation of \<open>workflow.config\<close> inside the f-string of line 41.
  \<open>logger.debug\<close>, \<open>traceback.format_exc\<close> and \<open>print_init_error\<close> have no entry:
  they only add to the trace. For the reporter this is the spec's contract
  (\<open>reportInitError\<close> is a side-effecting call that must not itself raise).
\<close>

record ('cfg, 'wf) env =
  load_config_file :: "path \<Rightarrow> pyexc + 'cfg"
  create :: "'cfg \<Rightarrow> pyexc + 'wf"
  config_str :: "'wf \<Rightarrow> pyexc + string"
  execute :: "'wf \<Rightarrow> pyexc + 'wf"
  stop :: "'wf \<Rightarrow> pyexc + 'wf"
  print_status :: "'wf \<Rightarrow> pyexc + 'wf"
  raise_from_status :: "'wf \<Rightarrow> pyexc + 'wf"

subsection \<open>\<open>run_usage\<close>\<close>

text \<open>
  Lines 42 to 45, the handler of the \<open>try\<close> block, entered with the exception, the
  current value of \<open>config_dict\<close> and the trace so far. \<open>except Exception\<close> handles
  instances of \<open>Exception\<close> only; anything else leaves \<open>run_usage\<close> as it is.
  \<open>sys.exit(1)\<close> raises \<open>SystemExit(1)\<close>.
\<close>

definition except_Exception ::
  "pyexc \<Rightarrow> 'cfg option \<Rightarrow> 'cfg event list \<Rightarrow> (pyexc + unit) \<times> 'cfg event list" where
  "except_Exception exc config_dict t =
     (if isinstance_Exception exc then
        (Inl (SystemExit 1),
         t @ [Logger_debug (Traceback exc),
              Print_init_error exc config_dict usage,
              Sys_exit 1])
      else (Inl exc, t))"

text \<open>Lines 47 to 50, outside the \<open>try\<close> block: an exception of any of the four
  calls leaves \<open>run_usage\<close> at once.\<close>

definition run_workflow ::
  "('cfg, 'wf) env \<Rightarrow> 'wf \<Rightarrow> 'cfg event list \<Rightarrow> (pyexc + unit) \<times> 'cfg event list" where
  "run_workflow env workflow t =
     (case execute env workflow of
        Inl exc \<Rightarrow> (Inl exc, t @ [Execute])
      | Inr w1 \<Rightarrow>
         (case stop env w1 of
            Inl exc \<Rightarrow> (Inl exc, t @ [Execute, Stop])
          | Inr w2 \<Rightarrow>
             (case print_status env w2 of
                Inl exc \<Rightarrow> (Inl exc, t @ [Execute, Stop, Print_status])
              | Inr w3 \<Rightarrow>
                 (case raise_from_status env w3 of
                    Inl exc \<Rightarrow> (Inl exc, t @ [Execute, Stop, Print_status, Raise_from_status])
                  | Inr w4 \<Rightarrow> (Inr (), t @ [Execute, Stop, Print_status, Raise_from_status])))))"

text \<open>Lines 37 to 50. \<open>config_dict\<close> is \<open>None\<close> until \<open>load_config_file\<close> has
  returned.\<close>

definition run_usage ::
  "('cfg, 'wf) env \<Rightarrow> path \<Rightarrow> (pyexc + unit) \<times> 'cfg event list" where
  "run_usage env config_path =
     (case load_config_file env config_path of
        Inl exc \<Rightarrow> except_Exception exc None [Load_config_file config_path]
      | Inr config_dict \<Rightarrow>
         (case create env config_dict of
            Inl exc \<Rightarrow>
              except_Exception exc (Some config_dict)
                [Load_config_file config_path, Create config_dict]
          | Inr workflow \<Rightarrow>
             (case config_str env workflow of
                Inl exc \<Rightarrow>
                  except_Exception exc (Some config_dict)
                    [Load_config_file config_path, Create config_dict]
              | Inr s \<Rightarrow>
                  run_workflow env workflow
                    [Load_config_file config_path, Create config_dict,
                     Logger_debug (Using_config s)])))"

text \<open>
  Modelled from the spec: the process boundary is not part of the source file. When
  \<open>run_usage\<close> returns the process ends with code 0; a \<open>SystemExit\<close> ends it with its
  code; any other exception reaches the top-level handler, which turns it into a
  nonzero exit (the interpreter's own code for an uncaught exception is 1).
\<close>

definition exit_code :: "pyexc + unit \<Rightarrow> int" where
  "exit_code r =
     (case r of
        Inr _ \<Rightarrow> 0
      | Inl (SystemExit n) \<Rightarrow> n
      | Inl _ \<Rightarrow> 1)"

subsection \<open>The workflow instance\<close>

text \<open>
  Modelled from the spec: \<open>UsageWorkflow\<close> is not part of the source file. The spec
  gives its contract: the states \<open>Constructed\<close>, \<open>Running\<close>, \<open>Stopped\<close>; a status that
  \<open>execute\<close> settles; \<open>stop\<close> moves to \<open>Stopped\<close> from any state; \<open>print_status\<close> and
  \<open>raise_from_status\<close> leave the state alone; \<open>raise_from_status\<close> fails with
  \<open>WorkflowFailed\<close> if and only if the recorded status is not \<open>Success\<close>.
\<close>

datatype wf_state = Constructed | Running | Stopped

datatype wf_status = Success | PartialFailure "string list" | Failure

record workflow =
  state :: wf_state
  status :: "wf_status option"
  config :: string

definition WorkflowFailed :: pyexc where
  "WorkflowFailed = Exception ''WorkflowFailed''"

definition wf_stop :: "workflow \<Rightarrow> pyexc + workflow" where
  "wf_stop w = Inr (w\<lparr>state := Stopped\<rparr>)"

definition wf_print_status :: "workflow \<Rightarrow> pyexc + workflow" where
  "wf_print_status w = Inr w"

definition wf_raise_from_status :: "workflow \<Rightarrow> pyexc + workflow" where
  "wf_raise_from_status w =
     (if status w = Some Success then Inr w else Inl WorkflowFailed)"

subsection \<open>Reading a trace\<close>

text \<open>The six lifecycle calls, and the trace reduced to them.\<close>

datatype step =
    Load_step | Create_step | Execute_step | Stop_step | Print_status_step
  | Raise_from_status_step

fun step_of :: "'cfg event \<Rightarrow> step option" where
  "step_of (Load_config_file _) = Some Load_step"
| "step_of (Create _) = Some Create_step"
| "step_of Execute = Some Execute_step"
| "step_of Stop = Some Stop_step"
| "step_of Print_status = Some Print_status_step"
| "step_of Raise_from_status = Some Raise_from_status_step"
| "step_of (Logger_debug _) = None"
| "step_of (Print_init_error _ _ _) = None"
| "step_of (Sys_exit _) = None"

definition steps :: "'cfg event list \<Rightarrow> step list" where
  "steps t = List.map_filter step_of t"

definition lifecycle :: "step list" where
  "lifecycle =
     [Load_step, Create_step, Execute_step, Stop_step, Print_status_step,
      Raise_from_status_step]"

fun is_report :: "'cfg event \<Rightarrow> bool" where
  "is_report (Print_init_error _ _ _) = True"
| "is_report _ = False"

fun is_traceback :: "'cfg event \<Rightarrow> bool" where
  "is_traceback (Logger_debug (Traceback _)) = True"
| "is_traceback _ = False"

definition reports :: "'cfg event list \<Rightarrow> 'cfg event list" where
  "reports t = filter is_report t"

subsection \<open>Example runs\<close>

text \<open>An environment whose first four collaborators end as given, whatever their
  argument, and whose workflow methods follow the contract above.\<close>

definition fixed_env ::
  "pyexc + string \<Rightarrow> pyexc + workflow \<Rightarrow> pyexc + string \<Rightarrow> pyexc + workflow
     \<Rightarrow> (string, workflow) env" where
  "fixed_env l c s e =
     \<lparr>load_config_file = (\<lambda>_. l), create = (\<lambda>_. c), config_str = (\<lambda>_. s),
      execute = (\<lambda>_. e), stop = wf_stop, print_status = wf_print_status,
      raise_from_status = wf_raise_from_status\<rparr>"

definition fresh :: workflow where
  "fresh = \<lparr>state = Constructed, status = None, config = ''usage.yaml''\<rparr>"

definition settled :: "wf_status \<Rightarrow> workflow" where
  "settled st = \<lparr>state = Running, status = Some st, config = ''usage.yaml''\<rparr>"

section \<open>Properties\<close>

subsection \<open>How a run unfolds\<close>

text \<open>The run after a failure inside the \<open>try\<close> block, for each of its three
  statements, and after the block has completed.\<close>

lemma run_usage_load_raises:
  "load_config_file env p = Inl exc \<Longrightarrow>
   run_usage env p = except_Exception exc None [Load_config_file p]"
  by (simp add: run_usage_def)

lemma run_usage_create_raises:
  "load_config_file env p = Inr c \<Longrightarrow> create env c = Inl exc \<Longrightarrow>
   run_usage env p = except_Exception exc (Some c) [Load_config_file p, Create c]"
  by (simp add: run_usage_def)

lemma run_usage_config_str_raises:
  "load_config_file env p = Inr c \<Longrightarrow> create env c = Inr w \<Longrightarrow>
   config_str env w = Inl exc \<Longrightarrow>
   run_usage env p = except_Exception exc (Some c) [Load_config_file p, Create c]"
  by (simp add: run_usage_def)

lemma run_usage_try_completes:
  "load_config_file env p = Inr c \<Longrightarrow> create env c = Inr w \<Longrightarrow>
   config_str env w = Inr s \<Longrightarrow>
   run_usage env p =
     run_workflow env w [Load_config_file p, Create c, Logger_debug (Using_config s)]"
  by (simp add: run_usage_def)

lemma handler_Exception:
  "except_Exception (Exception m) cd t =
     (Inl (SystemExit 1),
      t @ [Logger_debug (Traceback (Exception m)),
           Print_init_error (Exception m) cd usage, Sys_exit 1])"
  by (simp add: except_Exception_def)

lemma handler_passes:
  "\<not> isinstance_Exception exc \<Longrightarrow> except_Exception exc cd t = (Inl exc, t)"
  by (simp add: except_Exception_def)

text \<open>An exception that is not an instance of \<open>Exception\<close> (a \<open>KeyboardInterrupt\<close>
  while the file is read, say) is not handled: it leaves \<open>run_usage\<close> with nothing
  logged and nothing reported.\<close>

lemma non_Exception_leaves_try_block:
  "load_config_file env p = Inl exc \<Longrightarrow> \<not> isinstance_Exception exc \<Longrightarrow>
   run_usage env p = (Inl exc, [Load_config_file p])"
  by (simp add: run_usage_load_raises handler_passes)

text \<open>The four calls after the \<open>try\<close> block.\<close>

lemma run_workflow_execute_raises:
  "execute env w = Inl exc \<Longrightarrow> run_workflow env w t = (Inl exc, t @ [Execute])"
  by (simp add: run_workflow_def)

lemma run_workflow_stop_raises:
  "execute env w = Inr w1 \<Longrightarrow> stop env w1 = Inl exc \<Longrightarrow>
   run_workflow env w t = (Inl exc, t @ [Execute, Stop])"
  by (simp add: run_workflow_def)

lemma run_workflow_print_status_raises:
  "execute env w = Inr w1 \<Longrightarrow> stop env w1 = Inr w2 \<Longrightarrow>
   print_status env w2 = Inl exc \<Longrightarrow>
   run_workflow env w t = (Inl exc, t @ [Execute, Stop, Print_status])"
  by (simp add: run_workflow_def)

lemma run_workflow_raise_from_status_raises:
  "execute env w = Inr w1 \<Longrightarrow> stop env w1 = Inr w2 \<Longrightarrow>
   print_status env w2 = Inr w3 \<Longrightarrow> raise_from_status env w3 = Inl exc \<Longrightarrow>
   run_workflow env w t = (Inl exc, t @ [Execute, Stop, Print_status, Raise_from_status])"
  by (simp add: run_workflow_def)

lemma run_workflow_returns:
  "execute env w = Inr w1 \<Longrightarrow> stop env w1 = Inr w2 \<Longrightarrow>
   print_status env w2 = Inr w3 \<Longrightarrow> raise_from_status env w3 = Inr w4 \<Longrightarrow>
   run_workflow env w t = (Inr (), t @ [Execute, Stop, Print_status, Raise_from_status])"
  by (simp add: run_workflow_def)

text \<open>What the handler and the four calls add to the lifecycle steps, to the reports
  and to the logged stack traces of a trace.\<close>

lemma steps_Nil: "steps [] = []"
  by (simp add: steps_def)

lemma steps_Cons:
  "steps (ev # t) = (case step_of ev of None \<Rightarrow> steps t | Some s \<Rightarrow> s # steps t)"
  by (simp add: steps_def split: option.split)

lemma steps_handler: "steps (snd (except_Exception exc cd [])) = []"
  by (simp add: except_Exception_def steps_Nil steps_Cons)

lemma steps_append: "steps (t @ u) = steps t @ steps u"
  by (induction t) (simp_all add: steps_Cons steps_Nil split: option.split)

lemma handler_appends:
  "snd (except_Exception exc cd t) = t @ snd (except_Exception exc cd [])"
  by (simp add: except_Exception_def)

lemma run_workflow_appends:
  "snd (run_workflow env w t) = t @ snd (run_workflow env w [])"
  by (simp add: run_workflow_def split: sum.split)

lemma run_workflow_fst: "fst (run_workflow env w t) = fst (run_workflow env w [])"
  by (simp add: run_workflow_def split: sum.split)

lemma reports_run_workflow: "reports (snd (run_workflow env w [])) = []"
  by (simp add: run_workflow_def reports_def split: sum.split)

lemma tracebacks_run_workflow: "filter is_traceback (snd (run_workflow env w [])) = []"
  by (simp add: run_workflow_def split: sum.split)

lemma steps_run_workflow:
  "prefix (steps (snd (run_workflow env w [])))
     [Execute_step, Stop_step, Print_status_step, Raise_from_status_step]"
  by (simp add: run_workflow_def steps_Nil steps_Cons split: sum.split)

lemma reports_handler: "length (reports (snd (except_Exception exc cd []))) \<le> 1"
  by (simp add: except_Exception_def reports_def)

subsection \<open>Failures of loading and of construction\<close>

text \<open>
  Claim C3. Whenever \<open>load_config_file\<close> fails (the file is missing, unreadable or
  cannot be parsed, so it raises an \<open>Exception\<close>), \<open>run_usage\<close> never calls
  \<open>UsageWorkflow.create\<close>: the only lifecycle call of the run is the load. The run
  ends with \<open>sys.exit(1)\<close>, so the process leaves with the initialization-failure
  code 1.
\<close>

theorem load_failure_constructs_nothing:
  assumes "load_config_file env p = Inl (Exception m)"
  shows "Create_step \<notin> set (steps (snd (run_usage env p))) \<and>
         steps (snd (run_usage env p)) = [Load_step] \<and>
         fst (run_usage env p) = Inl (SystemExit 1) \<and>
         exit_code (fst (run_usage env p)) = 1"
proof -
  have run: "run_usage env p =
      (Inl (SystemExit 1),
       [Load_config_file p, Logger_debug (Traceback (Exception m)),
        Print_init_error (Exception m) None usage, Sys_exit 1])"
    using assms by (simp add: run_usage_load_raises handler_Exception)
  have st: "steps (snd (run_usage env p)) = [Load_step]"
    by (simp add: run steps_Cons steps_Nil)
  show ?thesis
    by (simp add: st) (simp add: run exit_code_def)
qed

theorem load_failure_constructs_nothing_witness:
  "load_config_file
     (fixed_env (Inl (Exception ''ConfigError'')) (Inr fresh) (Inr ''usage.yaml'')
        (Inr (settled Success))) ''missing.yaml'' = Inl (Exception ''ConfigError'') \<and>
   steps (snd (run_usage
     (fixed_env (Inl (Exception ''ConfigError'')) (Inr fresh) (Inr ''usage.yaml'')
        (Inr (settled Success))) ''missing.yaml'')) = [Load_step] \<and>
   exit_code (fst (run_usage
     (fixed_env (Inl (Exception ''ConfigError'')) (Inr fresh) (Inr ''usage.yaml'')
        (Inr (settled Success))) ''missing.yaml'')) = 1"
  using load_failure_constructs_nothing
    [of "fixed_env (Inl (Exception ''ConfigError'')) (Inr fresh) (Inr ''usage.yaml'')
           (Inr (settled Success))" "''missing.yaml''" "''ConfigError''"]
  by (simp add: fixed_env_def exit_code_def)

text \<open>
  Claim C4. Whenever \<open>load_config_file\<close> returns a document and
  \<open>UsageWorkflow.create\<close> rejects it (schema validation or construction fails, so it
  raises an \<open>Exception\<close>), \<open>run_usage\<close> reports that exception once, together with
  the loaded document and tagged \<open>PipelineType.usage\<close>, ends with a nonzero exit
  code, and never calls \<open>execute\<close>.
\<close>

theorem create_failure_reported_as_usage:
  assumes "load_config_file env p = Inr c"
    and "create env c = Inl (Exception m)"
  shows "reports (snd (run_usage env p)) = [Print_init_error (Exception m) (Some c) usage] \<and>
         exit_code (fst (run_usage env p)) \<noteq> 0 \<and>
         Execute_step \<notin> set (steps (snd (run_usage env p)))"
proof -
  have run: "run_usage env p =
      (Inl (SystemExit 1),
       [Load_config_file p, Create c, Logger_debug (Traceback (Exception m)),
        Print_init_error (Exception m) (Some c) usage, Sys_exit 1])"
    using assms by (simp add: run_usage_create_raises handler_Exception)
  have rp: "reports (snd (run_usage env p)) = [Print_init_error (Exception m) (Some c) usage]"
    by (simp add: run reports_def)
  have st: "steps (snd (run_usage env p)) = [Load_step, Create_step]"
    by (simp add: run steps_Cons steps_Nil)
  have ex: "exit_code (fst (run_usage env p)) = 1"
    by (simp add: run exit_code_def)
  show ?thesis
    by (simp add: rp st ex)
qed

theorem create_failure_reported_as_usage_witness:
  "load_config_file
     (fixed_env (Inr ''source: {}'') (Inl (Exception ''ValidationError''))
        (Inr ''usage.yaml'') (Inr (settled Success))) ''usage.yaml'' = Inr ''source: {}'' \<and>
   create
     (fixed_env (Inr ''source: {}'') (Inl (Exception ''ValidationError''))
        (Inr ''usage.yaml'') (Inr (settled Success))) ''source: {}''
     = Inl (Exception ''ValidationError'') \<and>
   reports (snd (run_usage
     (fixed_env (Inr ''source: {}'') (Inl (Exception ''ValidationError''))
        (Inr ''usage.yaml'') (Inr (settled Success))) ''usage.yaml''))
     = [Print_init_error (Exception ''ValidationError'') (Some ''source: {}'') usage]"
  using create_failure_reported_as_usage
    [of "fixed_env (Inr ''source: {}'') (Inl (Exception ''ValidationError''))
           (Inr ''usage.yaml'') (Inr (settled Success))"
        "''usage.yaml''" "''source: {}''" "''ValidationError''"]
  by (simp add: fixed_env_def)

subsection \<open>Runs that reach the workflow\<close>

text \<open>
  Claim C10. If \<open>execute\<close> itself raises, \<open>run_usage\<close> calls none of \<open>stop\<close>,
  \<open>print_status\<close> and \<open>raise_from_status\<close>, does not call the
  initialization-error reporter, and the exception leaves \<open>run_usage\<close> unchanged:
  the trace ends with the call of \<open>execute\<close>.
\<close>

theorem execute_exception_propagates:
  assumes "load_config_file env p = Inr c"
    and "create env c = Inr w"
    and "config_str env w = Inr s"
    and "execute env w = Inl exc"
  shows "run_usage env p =
           (Inl exc, [Load_config_file p, Create c, Logger_debug (Using_config s), Execute]) \<and>
         steps (snd (run_usage env p)) = [Load_step, Create_step, Execute_step] \<and>
         reports (snd (run_usage env p)) = []"
proof -
  have run: "run_usage env p =
      (Inl exc, [Load_config_file p, Create c, Logger_debug (Using_config s), Execute])"
    using assms by (simp add: run_usage_try_completes run_workflow_execute_raises)
  show ?thesis
    by (simp add: run steps_Cons steps_Nil reports_def)
qed

theorem execute_exception_propagates_witness:
  "execute
     (fixed_env (Inr ''source: {}'') (Inr fresh) (Inr ''usage.yaml'')
        (Inl (Exception ''MemoryError''))) fresh = Inl (Exception ''MemoryError'') \<and>
   run_usage
     (fixed_env (Inr ''source: {}'') (Inr fresh) (Inr ''usage.yaml'')
        (Inl (Exception ''MemoryError''))) ''usage.yaml''
     = (Inl (Exception ''MemoryError''),
        [Load_config_file ''usage.yaml'', Create ''source: {}'',
         Logger_debug (Using_config ''usage.yaml''), Execute])"
  using execute_exception_propagates
    [of "fixed_env (Inr ''source: {}'') (Inr fresh) (Inr ''usage.yaml'')
           (Inl (Exception ''MemoryError''))"
        "''usage.yaml''" "''source: {}''" fresh "''usage.yaml''" "Exception ''MemoryError''"]
  by (simp add: fixed_env_def)

text \<open>
  Claim C5. Given a constructed workflow whose \<open>execute\<close> returns with the status
  \<open>Success\<close>, and whose other methods follow the contract, \<open>run_usage\<close> calls \<open>stop\<close>
  exactly once, then \<open>print_status\<close>, then \<open>raise_from_status\<close>, which does not
  raise; \<open>run_usage\<close> returns and the process ends with exit code 0.
\<close>

theorem success_run_stops_prints_and_returns:
  assumes "load_config_file env p = Inr c"
    and "create env c = Inr w"
    and "config_str env w = Inr s"
    and "execute env w = Inr w1"
    and "status w1 = Some Success"
    and "stop env = wf_stop"
    and "print_status env = wf_print_status"
    and "raise_from_status env = wf_raise_from_status"
  shows "run_usage env p =
           (Inr (),
            [Load_config_file p, Create c, Logger_debug (Using_config s),
             Execute, Stop, Print_status, Raise_from_status]) \<and>
         count_list (snd (run_usage env p)) Stop = 1 \<and>
         raise_from_status env (w1\<lparr>state := Stopped\<rparr>) = Inr (w1\<lparr>state := Stopped\<rparr>) \<and>
         exit_code (fst (run_usage env p)) = 0"
proof -
  let ?w2 = "w1\<lparr>state := Stopped\<rparr>"
  have s: "stop env w1 = Inr ?w2"
    using assms by (simp add: wf_stop_def)
  have ps: "print_status env ?w2 = Inr ?w2"
    using assms by (simp add: wf_print_status_def)
  have rs: "raise_from_status env ?w2 = Inr ?w2"
    using assms by (simp add: wf_raise_from_status_def)
  have run: "run_usage env p =
      (Inr (),
       [Load_config_file p, Create c, Logger_debug (Using_config s),
        Execute, Stop, Print_status, Raise_from_status])"
    using assms(1-4) s ps rs
    by (simp add: run_usage_try_completes run_workflow_returns)
  show ?thesis
    by (simp add: run rs exit_code_def)
qed

theorem success_run_stops_prints_and_returns_witness:
  "execute
     (fixed_env (Inr ''source: {}'') (Inr fresh) (Inr ''usage.yaml'')
        (Inr (settled Success))) fresh = Inr (settled Success) \<and>
   status (settled Success) = Some Success \<and>
   run_usage
     (fixed_env (Inr ''source: {}'') (Inr fresh) (Inr ''usage.yaml'')
        (Inr (settled Success))) ''usage.yaml''
     = (Inr (),
        [Load_config_file ''usage.yaml'', Create ''source: {}'',
         Logger_debug (Using_config ''usage.yaml''),
         Execute, Stop, Print_status, Raise_from_status])"
  using success_run_stops_prints_and_returns
    [of "fixed_env (Inr ''source: {}'') (Inr fresh) (Inr ''usage.yaml'')
           (Inr (settled Success))"
        "''usage.yaml''" "''source: {}''" fresh "''usage.yaml''" "settled Success"]
  by (simp add: fixed_env_def settled_def)

text \<open>
  Claim C6. Given a constructed workflow whose \<open>execute\<close> returns with the status
  \<open>Failure\<close>, and whose other methods follow the contract, \<open>stop\<close> (and
  \<open>print_status\<close>) are called before \<open>raise_from_status\<close> raises \<open>WorkflowFailed\<close>;
  that exception leaves \<open>run_usage\<close> and the process ends with a nonzero exit code.
\<close>

theorem failure_run_stops_before_raising:
  assumes "load_config_file env p = Inr c"
    and "create env c = Inr w"
    and "config_str env w = Inr s"
    and "execute env w = Inr w1"
    and "status w1 = Some Failure"
    and "stop env = wf_stop"
    and "print_status env = wf_print_status"
    and "raise_from_status env = wf_raise_from_status"
  shows "run_usage env p =
           (Inl WorkflowFailed,
            [Load_config_file p, Create c, Logger_debug (Using_config s),
             Execute, Stop, Print_status, Raise_from_status]) \<and>
         raise_from_status env (w1\<lparr>state := Stopped\<rparr>) = Inl WorkflowFailed \<and>
         exit_code (fst (run_usage env p)) \<noteq> 0"
proof -
  let ?w2 = "w1\<lparr>state := Stopped\<rparr>"
  have s: "stop env w1 = Inr ?w2"
    using assms by (simp add: wf_stop_def)
  have ps: "print_status env ?w2 = Inr ?w2"
    using assms by (simp add: wf_print_status_def)
  have rs: "raise_from_status env ?w2 = Inl WorkflowFailed"
    using assms by (simp add: wf_raise_from_status_def)
  have run: "run_usage env p =
      (Inl WorkflowFailed,
       [Load_config_file p, Create c, Logger_debug (Using_config s),
        Execute, Stop, Print_status, Raise_from_status])"
    using assms(1-4) s ps rs
    by (simp add: run_usage_try_completes run_workflow_raise_from_status_raises)
  show ?thesis
    by (simp add: run rs exit_code_def WorkflowFailed_def)
qed

theorem failure_run_stops_before_raising_witness:
  "execute
     (fixed_env (Inr ''source: {}'') (Inr fresh) (Inr ''usage.yaml'')
        (Inr (settled Failure))) fresh = Inr (settled Failure) \<and>
   status (settled Failure) = Some Failure \<and>
   run_usage
     (fixed_env (Inr ''source: {}'') (Inr fresh) (Inr ''usage.yaml'')
        (Inr (settled Failure))) ''usage.yaml''
     = (Inl (Exception ''WorkflowFailed''),
        [Load_config_file ''usage.yaml'', Create ''source: {}'',
         Logger_debug (Using_config ''usage.yaml''),
         Execute, Stop, Print_status, Raise_from_status])"
  using failure_run_stops_before_raising
    [of "fixed_env (Inr ''source: {}'') (Inr fresh) (Inr ''usage.yaml'')
           (Inr (settled Failure))"
        "''usage.yaml''" "''source: {}''" fresh "''usage.yaml''" "settled Failure"]
  by (simp add: fixed_env_def settled_def WorkflowFailed_def)

subsection \<open>Which failures reach the reporter\<close>

text \<open>
  Claim C7. For every failure of the initialization phase the reporter
  \<open>print_init_error\<close> is called once, with the exception that was raised, with the
  partial configuration (\<open>None\<close> when \<open>load_config_file\<close> itself failed, the loaded
  document when \<open>UsageWorkflow.create\<close> or the debug line after it failed) and with
  \<open>PipelineType.usage\<close>. The configuration argument is an option, so the reporter is
  never promised a document.
\<close>

theorem reporter_gets_exception_config_and_kind:
  "(load_config_file env p = Inl (Exception m) \<longrightarrow>
      reports (snd (run_usage env p)) = [Print_init_error (Exception m) None usage]) \<and>
   (load_config_file env p = Inr c \<and> create env c = Inl (Exception m) \<longrightarrow>
      reports (snd (run_usage env p)) = [Print_init_error (Exception m) (Some c) usage]) \<and>
   (load_config_file env p = Inr c \<and> create env c = Inr w \<and>
    config_str env w = Inl (Exception m) \<longrightarrow>
      reports (snd (run_usage env p)) = [Print_init_error (Exception m) (Some c) usage])"
proof (intro conjI impI)
  assume "load_config_file env p = Inl (Exception m)"
  then show "reports (snd (run_usage env p)) = [Print_init_error (Exception m) None usage]"
    by (simp add: run_usage_load_raises handler_Exception reports_def)
next
  assume "load_config_file env p = Inr c \<and> create env c = Inl (Exception m)"
  then show "reports (snd (run_usage env p)) = [Print_init_error (Exception m) (Some c) usage]"
    by (simp add: run_usage_create_raises handler_Exception reports_def)
next
  assume "load_config_file env p = Inr c \<and> create env c = Inr w \<and>
    config_str env w = Inl (Exception m)"
  then show "reports (snd (run_usage env p)) = [Print_init_error (Exception m) (Some c) usage]"
    by (simp add: run_usage_config_str_raises handler_Exception reports_def)
qed

theorem reporter_gets_exception_config_and_kind_witness:
  "reports (snd (run_usage
     (fixed_env (Inl (Exception ''ConfigError'')) (Inr fresh) (Inr ''usage.yaml'')
        (Inr (settled Success))) ''missing.yaml''))
     = [Print_init_error (Exception ''ConfigError'') None usage] \<and>
   reports (snd (run_usage
     (fixed_env (Inr ''source: {}'') (Inl (Exception ''ValidationError''))
        (Inr ''usage.yaml'') (Inr (settled Success))) ''usage.yaml''))
     = [Print_init_error (Exception ''ValidationError'') (Some ''source: {}'') usage]"
  using reporter_gets_exception_config_and_kind
    [of "fixed_env (Inl (Exception ''ConfigError'')) (Inr fresh) (Inr ''usage.yaml'')
           (Inr (settled Success))" "''missing.yaml''" "''ConfigError''"]
    reporter_gets_exception_config_and_kind
    [of "fixed_env (Inr ''source: {}'') (Inl (Exception ''ValidationError''))
           (Inr ''usage.yaml'') (Inr (settled Success))"
        "''usage.yaml''" "''ValidationError''" "''source: {}''"]
  by (simp add: fixed_env_def)

text \<open>
  Claim C2. An \<open>Exception\<close> raised in the initialization phase, by
  \<open>load_config_file\<close> or by \<open>UsageWorkflow.create\<close>, is caught inside \<open>run_usage\<close>:
  it is reported and the run ends with the controlled exit \<open>sys.exit(1)\<close>, so what
  leaves \<open>run_usage\<close> is \<open>SystemExit(1)\<close> and never the exception itself. An exception
  raised by \<open>raise_from_status\<close> is not caught: it leaves \<open>run_usage\<close> as it is, with
  nothing reported.
\<close>

theorem init_errors_caught_status_errors_propagate:
  "(load_config_file env p = Inl (Exception m) \<longrightarrow>
      fst (run_usage env p) = Inl (SystemExit 1) \<and>
      fst (run_usage env p) \<noteq> Inl (Exception m) \<and>
      reports (snd (run_usage env p)) = [Print_init_error (Exception m) None usage] \<and>
      exit_code (fst (run_usage env p)) = 1) \<and>
   (load_config_file env p = Inr c \<and> create env c = Inl (Exception m) \<longrightarrow>
      fst (run_usage env p) = Inl (SystemExit 1) \<and>
      fst (run_usage env p) \<noteq> Inl (Exception m) \<and>
      reports (snd (run_usage env p)) = [Print_init_error (Exception m) (Some c) usage] \<and>
      exit_code (fst (run_usage env p)) = 1) \<and>
   (load_config_file env p = Inr c \<and> create env c = Inr w \<and> config_str env w = Inr s \<and>
    execute env w = Inr w1 \<and> stop env w1 = Inr w2 \<and> print_status env w2 = Inr w3 \<and>
    raise_from_status env w3 = Inl exc \<longrightarrow>
      fst (run_usage env p) = Inl exc \<and>
      reports (snd (run_usage env p)) = [])"
proof (intro conjI impI)
  assume a: "load_config_file env p = Inl (Exception m)"
  then have run: "run_usage env p =
      (Inl (SystemExit 1),
       [Load_config_file p, Logger_debug (Traceback (Exception m)),
        Print_init_error (Exception m) None usage, Sys_exit 1])"
    by (simp add: run_usage_load_raises handler_Exception)
  show "fst (run_usage env p) = Inl (SystemExit 1)"
    by (simp add: run)
  show "fst (run_usage env p) \<noteq> Inl (Exception m)"
    by (simp add: run)
  show "reports (snd (run_usage env p)) = [Print_init_error (Exception m) None usage]"
    by (simp add: run reports_def)
  show "exit_code (fst (run_usage env p)) = 1"
    by (simp add: run exit_code_def)
next
  assume a: "load_config_file env p = Inr c \<and> create env c = Inl (Exception m)"
  then have run: "run_usage env p =
      (Inl (SystemExit 1),
       [Load_config_file p, Create c, Logger_debug (Traceback (Exception m)),
        Print_init_error (Exception m) (Some c) usage, Sys_exit 1])"
    by (simp add: run_usage_create_raises handler_Exception)
  show "fst (run_usage env p) = Inl (SystemExit 1)"
    by (simp add: run)
  show "fst (run_usage env p) \<noteq> Inl (Exception m)"
    by (simp add: run)
  show "reports (snd (run_usage env p)) = [Print_init_error (Exception m) (Some c) usage]"
    by (simp add: run reports_def)
  show "exit_code (fst (run_usage env p)) = 1"
    by (simp add: run exit_code_def)
next
  assume a: "load_config_file env p = Inr c \<and> create env c = Inr w \<and>
    config_str env w = Inr s \<and> execute env w = Inr w1 \<and> stop env w1 = Inr w2 \<and>
    print_status env w2 = Inr w3 \<and> raise_from_status env w3 = Inl exc"
  then have run: "run_usage env p =
      (Inl exc,
       [Load_config_file p, Create c, Logger_debug (Using_config s),
        Execute, Stop, Print_status, Raise_from_status])"
    by (simp add: run_usage_try_completes run_workflow_raise_from_status_raises)
  show "fst (run_usage env p) = Inl exc"
    by (simp add: run)
  show "reports (snd (run_usage env p)) = []"
    by (simp add: run reports_def)
qed

theorem init_errors_caught_status_errors_propagate_witness:
  "fst (run_usage
     (fixed_env (Inl (Exception ''ConfigError'')) (Inr fresh) (Inr ''usage.yaml'')
        (Inr (settled Success))) ''missing.yaml'') = Inl (SystemExit 1) \<and>
   fst (run_usage
     (fixed_env (Inr ''source: {}'') (Inl (Exception ''ValidationError''))
        (Inr ''usage.yaml'') (Inr (settled Success))) ''usage.yaml'') = Inl (SystemExit 1) \<and>
   fst (run_usage
     (fixed_env (Inr ''source: {}'') (Inr fresh) (Inr ''usage.yaml'')
        (Inr (settled Failure))) ''usage.yaml'') = Inl (Exception ''WorkflowFailed'')"
  using init_errors_caught_status_errors_propagate
    [of "fixed_env (Inl (Exception ''ConfigError'')) (Inr fresh) (Inr ''usage.yaml'')
           (Inr (settled Success))" "''missing.yaml''" "''ConfigError''"]
    init_errors_caught_status_errors_propagate
    [of "fixed_env (Inr ''source: {}'') (Inl (Exception ''ValidationError''))
           (Inr ''usage.yaml'') (Inr (settled Success))"
        "''usage.yaml''" "''ValidationError''" "''source: {}''"]
    init_errors_caught_status_errors_propagate
    [of "fixed_env (Inr ''source: {}'') (Inr fresh) (Inr ''usage.yaml'')
           (Inr (settled Failure))"
        "''usage.yaml''" _ "''source: {}''" fresh "''usage.yaml''" "settled Failure"
        "settled Failure\<lparr>state := Stopped\<rparr>" "settled Failure\<lparr>state := Stopped\<rparr>"
        "Exception ''WorkflowFailed''"]
  by (simp add: fixed_env_def settled_def wf_stop_def wf_print_status_def
      wf_raise_from_status_def WorkflowFailed_def)


subsection \<open>The two diagnostic paths\<close>

text \<open>
  Claim C1, as stated: an exception raised before the workflow instance exists is
  handled as an initialization error, and no exception raised after
  \<open>UsageWorkflow.create\<close> has returned an instance is routed through the
  initialization-error reporter. The second half fails: line 41,
  \<open>logger.debug(f"Using config: {workflow.config}")\<close>, runs after \<open>create\<close> has
  returned and is still inside the \<open>try\<close> block. In the run below \<open>create\<close> returns
  the instance \<open>fresh\<close>, the evaluation of \<open>workflow.config\<close> raises, and the exception
  is logged, handed to \<open>print_init_error\<close> and turned into \<open>sys.exit(1)\<close>.
\<close>

theorem exception_after_create_reported_as_init_error:
  "create
     (fixed_env (Inr ''source: {}'') (Inr fresh) (Inl (Exception ''AttributeError''))
        (Inr (settled Success))) ''source: {}'' = Inr fresh \<and>
   run_usage
     (fixed_env (Inr ''source: {}'') (Inr fresh) (Inl (Exception ''AttributeError''))
        (Inr (settled Success))) ''usage.yaml''
     = (Inl (SystemExit 1),
        [Load_config_file ''usage.yaml'', Create ''source: {}'',
         Logger_debug (Traceback (Exception ''AttributeError'')),
         Print_init_error (Exception ''AttributeError'') (Some ''source: {}'') usage,
         Sys_exit 1])"
  by (simp add: fixed_env_def run_usage_def except_Exception_def)

text \<open>
  Claim C1, amended. Every \<open>Exception\<close> raised inside the \<open>try\<close> block, by
  \<open>load_config_file\<close>, by \<open>UsageWorkflow.create\<close> or by the debug line that follows
  \<open>create\<close>, is handled as an initialization error: its stack trace is logged, it is
  reported through \<open>print_init_error\<close>, and the run ends with \<open>sys.exit(1)\<close>. Once the
  \<open>try\<close> block has completed, no exception is routed through the reporter: an
  exception raised by \<open>execute\<close>, \<open>stop\<close>, \<open>print_status\<close> or \<open>raise_from_status\<close>
  leaves \<open>run_usage\<close> unchanged.
\<close>

theorem try_block_errors_reported_later_errors_propagate:
  "(load_config_file env p = Inl (Exception m) \<longrightarrow>
      run_usage env p =
        (Inl (SystemExit 1),
         [Load_config_file p, Logger_debug (Traceback (Exception m)),
          Print_init_error (Exception m) None usage, Sys_exit 1])) \<and>
   (load_config_file env p = Inr c \<and> create env c = Inl (Exception m) \<longrightarrow>
      run_usage env p =
        (Inl (SystemExit 1),
         [Load_config_file p, Create c, Logger_debug (Traceback (Exception m)),
          Print_init_error (Exception m) (Some c) usage, Sys_exit 1])) \<and>
   (load_config_file env p = Inr c \<and> create env c = Inr w \<and>
    config_str env w = Inl (Exception m) \<longrightarrow>
      run_usage env p =
        (Inl (SystemExit 1),
         [Load_config_file p, Create c, Logger_debug (Traceback (Exception m)),
          Print_init_error (Exception m) (Some c) usage, Sys_exit 1])) \<and>
   (load_config_file env p = Inr c \<and> create env c = Inr w \<and> config_str env w = Inr s \<longrightarrow>
      reports (snd (run_usage env p)) = [] \<and>
      (execute env w = Inl exc \<longrightarrow> fst (run_usage env p) = Inl exc) \<and>
      (execute env w = Inr w1 \<and> stop env w1 = Inl exc \<longrightarrow>
         fst (run_usage env p) = Inl exc) \<and>
      (execute env w = Inr w1 \<and> stop env w1 = Inr w2 \<and> print_status env w2 = Inl exc \<longrightarrow>
         fst (run_usage env p) = Inl exc) \<and>
      (execute env w = Inr w1 \<and> stop env w1 = Inr w2 \<and> print_status env w2 = Inr w3 \<and>
       raise_from_status env w3 = Inl exc \<longrightarrow>
         fst (run_usage env p) = Inl exc))"
proof (intro conjI impI)
  assume "load_config_file env p = Inl (Exception m)"
  then show "run_usage env p =
      (Inl (SystemExit 1),
       [Load_config_file p, Logger_debug (Traceback (Exception m)),
        Print_init_error (Exception m) None usage, Sys_exit 1])"
    by (simp add: run_usage_load_raises handler_Exception)
next
  assume "load_config_file env p = Inr c \<and> create env c = Inl (Exception m)"
  then show "run_usage env p =
      (Inl (SystemExit 1),
       [Load_config_file p, Create c, Logger_debug (Traceback (Exception m)),
        Print_init_error (Exception m) (Some c) usage, Sys_exit 1])"
    by (simp add: run_usage_create_raises handler_Exception)
next
  assume "load_config_file env p = Inr c \<and> create env c = Inr w \<and>
    config_str env w = Inl (Exception m)"
  then show "run_usage env p =
      (Inl (SystemExit 1),
       [Load_config_file p, Create c, Logger_debug (Traceback (Exception m)),
        Print_init_error (Exception m) (Some c) usage, Sys_exit 1])"
    by (simp add: run_usage_config_str_raises handler_Exception)
next
  assume "load_config_file env p = Inr c \<and> create env c = Inr w \<and> config_str env w = Inr s"
  then have run: "run_usage env p =
      run_workflow env w [Load_config_file p, Create c, Logger_debug (Using_config s)]"
    by (simp add: run_usage_try_completes)
  have "reports (snd (run_usage env p)) =
      reports ([Load_config_file p, Create c, Logger_debug (Using_config s)]
        @ snd (run_workflow env w []))"
    by (simp only: run
        run_workflow_appends [of env w "[Load_config_file p, Create c, Logger_debug (Using_config s)]"])
  also have "\<dots> = reports (snd (run_workflow env w []))"
    by (simp add: reports_def)
  finally show "reports (snd (run_usage env p)) = []"
    by (simp add: reports_run_workflow)
  {
    assume "execute env w = Inl exc"
    then show "fst (run_usage env p) = Inl exc"
      by (simp add: run run_workflow_execute_raises)
  }
  {
    assume "execute env w = Inr w1 \<and> stop env w1 = Inl exc"
    then show "fst (run_usage env p) = Inl exc"
      by (simp add: run run_workflow_stop_raises)
  }
  {
    assume "execute env w = Inr w1 \<and> stop env w1 = Inr w2 \<and> print_status env w2 = Inl exc"
    then show "fst (run_usage env p) = Inl exc"
      by (simp add: run run_workflow_print_status_raises)
  }
  {
    assume "execute env w = Inr w1 \<and> stop env w1 = Inr w2 \<and> print_status env w2 = Inr w3 \<and>
       raise_from_status env w3 = Inl exc"
    then show "fst (run_usage env p) = Inl exc"
      by (simp add: run run_workflow_raise_from_status_raises)
  }
qed

theorem try_block_errors_reported_later_errors_propagate_witness:
  "run_usage
     (fixed_env (Inr ''source: {}'') (Inl (Exception ''ValidationError''))
        (Inr ''usage.yaml'') (Inr (settled Success))) ''usage.yaml''
     = (Inl (SystemExit 1),
        [Load_config_file ''usage.yaml'', Create ''source: {}'',
         Logger_debug (Traceback (Exception ''ValidationError'')),
         Print_init_error (Exception ''ValidationError'') (Some ''source: {}'') usage,
         Sys_exit 1]) \<and>
   fst (run_usage
     (fixed_env (Inr ''source: {}'') (Inr fresh) (Inr ''usage.yaml'')
        (Inl (Exception ''MemoryError''))) ''usage.yaml'') = Inl (Exception ''MemoryError'') \<and>
   reports (snd (run_usage
     (fixed_env (Inr ''source: {}'') (Inr fresh) (Inr ''usage.yaml'')
        (Inl (Exception ''MemoryError''))) ''usage.yaml'')) = []"
  using try_block_errors_reported_later_errors_propagate
    [of "fixed_env (Inr ''source: {}'') (Inl (Exception ''ValidationError''))
           (Inr ''usage.yaml'') (Inr (settled Success))"
        "''usage.yaml''" "''ValidationError''" "''source: {}''"]
    try_block_errors_reported_later_errors_propagate
    [of "fixed_env (Inr ''source: {}'') (Inr fresh) (Inr ''usage.yaml'')
           (Inl (Exception ''MemoryError''))"
        "''usage.yaml''" _ "''source: {}''" fresh "''usage.yaml''"
        "Exception ''MemoryError''"]
  by (simp add: fixed_env_def)

subsection \<open>Logging of stack traces\<close>

text \<open>
  Claim C8, as stated: for every failed run, in whichever phase it fails, the
  orchestrator logs a stack trace at debug level. It fails in the runtime phase: the
  only call of \<open>traceback.format_exc\<close> is in the handler of the \<open>try\<close> block. In the run
  below the workflow settles on \<open>Failure\<close>, \<open>raise_from_status\<close> raises
  \<open>WorkflowFailed\<close>, the run fails, and the trace holds no logged stack trace.
\<close>

theorem runtime_failure_logs_no_traceback:
  "run_usage
     (fixed_env (Inr ''source: {}'') (Inr fresh) (Inr ''usage.yaml'')
        (Inr (settled Failure))) ''usage.yaml''
     = (Inl (Exception ''WorkflowFailed''),
        [Load_config_file ''usage.yaml'', Create ''source: {}'',
         Logger_debug (Using_config ''usage.yaml''),
         Execute, Stop, Print_status, Raise_from_status]) \<and>
   filter is_traceback (snd (run_usage
     (fixed_env (Inr ''source: {}'') (Inr fresh) (Inr ''usage.yaml'')
        (Inr (settled Failure))) ''usage.yaml'')) = []"
  by (simp add: fixed_env_def run_usage_def run_workflow_def settled_def wf_stop_def
      wf_print_status_def wf_raise_from_status_def WorkflowFailed_def)

text \<open>
  Claim C8, amended. For every failure in the initialization phase (an \<open>Exception\<close>
  raised inside the \<open>try\<close> block) the orchestrator logs the stack trace of that
  exception at debug level, before it calls the reporter: in the trace the logged
  stack trace comes right after the calls of the \<open>try\<close> block, the call of
  \<open>print_init_error\<close> follows it, and \<open>sys.exit(1)\<close> comes last. It is the only
  stack trace of the run. Once the \<open>try\<close> block has completed the orchestrator logs no
  stack trace, however the run ends: an exception of the runtime phase leaves
  \<open>run_usage\<close> unlogged.
\<close>

theorem traceback_logged_for_init_failures_only:
  "(load_config_file env p = Inl (Exception m) \<longrightarrow>
      snd (run_usage env p) =
        [Load_config_file p, Logger_debug (Traceback (Exception m)),
         Print_init_error (Exception m) None usage, Sys_exit 1] \<and>
      filter is_traceback (snd (run_usage env p)) = [Logger_debug (Traceback (Exception m))]) \<and>
   (load_config_file env p = Inr c \<and> create env c = Inl (Exception m) \<longrightarrow>
      snd (run_usage env p) =
        [Load_config_file p, Create c, Logger_debug (Traceback (Exception m)),
         Print_init_error (Exception m) (Some c) usage, Sys_exit 1] \<and>
      filter is_traceback (snd (run_usage env p)) = [Logger_debug (Traceback (Exception m))]) \<and>
   (load_config_file env p = Inr c \<and> create env c = Inr w \<and>
    config_str env w = Inl (Exception m) \<longrightarrow>
      snd (run_usage env p) =
        [Load_config_file p, Create c, Logger_debug (Traceback (Exception m)),
         Print_init_error (Exception m) (Some c) usage, Sys_exit 1] \<and>
      filter is_traceback (snd (run_usage env p)) = [Logger_debug (Traceback (Exception m))]) \<and>
   (load_config_file env p = Inr c \<and> create env c = Inr w \<and> config_str env w = Inr s \<longrightarrow>
      filter is_traceback (snd (run_usage env p)) = [])"
proof (intro conjI impI)
  assume "load_config_file env p = Inl (Exception m)"
  then have run: "run_usage env p =
      (Inl (SystemExit 1),
       [Load_config_file p, Logger_debug (Traceback (Exception m)),
        Print_init_error (Exception m) None usage, Sys_exit 1])"
    by (simp add: run_usage_load_raises handler_Exception)
  show "snd (run_usage env p) =
      [Load_config_file p, Logger_debug (Traceback (Exception m)),
       Print_init_error (Exception m) None usage, Sys_exit 1]"
    by (simp add: run)
  show "filter is_traceback (snd (run_usage env p)) =
      [Logger_debug (Traceback (Exception m))]"
    by (simp add: run)
next
  assume "load_config_file env p = Inr c \<and> create env c = Inl (Exception m)"
  then have run: "run_usage env p =
      (Inl (SystemExit 1),
       [Load_config_file p, Create c, Logger_debug (Traceback (Exception m)),
        Print_init_error (Exception m) (Some c) usage, Sys_exit 1])"
    by (simp add: run_usage_create_raises handler_Exception)
  show "snd (run_usage env p) =
      [Load_config_file p, Create c, Logger_debug (Traceback (Exception m)),
       Print_init_error (Exception m) (Some c) usage, Sys_exit 1]"
    by (simp add: run)
  show "filter is_traceback (snd (run_usage env p)) =
      [Logger_debug (Traceback (Exception m))]"
    by (simp add: run)
next
  assume "load_config_file env p = Inr c \<and> create env c = Inr w \<and>
    config_str env w = Inl (Exception m)"
  then have run: "run_usage env p =
      (Inl (SystemExit 1),
       [Load_config_file p, Create c, Logger_debug (Traceback (Exception m)),
        Print_init_error (Exception m) (Some c) usage, Sys_exit 1])"
    by (simp add: run_usage_config_str_raises handler_Exception)
  show "snd (run_usage env p) =
      [Load_config_file p, Create c, Logger_debug (Traceback (Exception m)),
       Print_init_error (Exception m) (Some c) usage, Sys_exit 1]"
    by (simp add: run)
  show "filter is_traceback (snd (run_usage env p)) =
      [Logger_debug (Traceback (Exception m))]"
    by (simp add: run)
next
  assume "load_config_file env p = Inr c \<and> create env c = Inr w \<and> config_str env w = Inr s"
  then have run: "run_usage env p =
      run_workflow env w [Load_config_file p, Create c, Logger_debug (Using_config s)]"
    by (simp add: run_usage_try_completes)
  have "filter is_traceback (snd (run_usage env p)) =
      filter is_traceback ([Load_config_file p, Create c, Logger_debug (Using_config s)]
        @ snd (run_workflow env w []))"
    by (simp only: run
        run_workflow_appends [of env w "[Load_config_file p, Create c, Logger_debug (Using_config s)]"])
  also have "\<dots> = filter is_traceback (snd (run_workflow env w []))"
    by simp
  finally show "filter is_traceback (snd (run_usage env p)) = []"
    by (simp add: tracebacks_run_workflow)
qed

theorem traceback_logged_for_init_failures_only_witness:
  "snd (run_usage
     (fixed_env (Inl (Exception ''ConfigError'')) (Inr fresh) (Inr ''usage.yaml'')
        (Inr (settled Success))) ''missing.yaml'')
     = [Load_config_file ''missing.yaml'',
        Logger_debug (Traceback (Exception ''ConfigError'')),
        Print_init_error (Exception ''ConfigError'') None usage, Sys_exit 1] \<and>
   snd (run_usage
     (fixed_env (Inr ''source: {}'') (Inl (Exception ''ValidationError''))
        (Inr ''usage.yaml'') (Inr (settled Success))) ''usage.yaml'')
     = [Load_config_file ''usage.yaml'', Create ''source: {}'',
        Logger_debug (Traceback (Exception ''ValidationError'')),
        Print_init_error (Exception ''ValidationError'') (Some ''source: {}'') usage,
        Sys_exit 1] \<and>
   filter is_traceback (snd (run_usage
     (fixed_env (Inl (Exception ''ConfigError'')) (Inr fresh) (Inr ''usage.yaml'')
        (Inr (settled Success))) ''missing.yaml''))
     = [Logger_debug (Traceback (Exception ''ConfigError''))] \<and>
   filter is_traceback (snd (run_usage
     (fixed_env (Inr ''source: {}'') (Inr fresh) (Inr ''usage.yaml'')
        (Inl (Exception ''MemoryError''))) ''usage.yaml'')) = []"
  using traceback_logged_for_init_failures_only
    [of "fixed_env (Inl (Exception ''ConfigError'')) (Inr fresh) (Inr ''usage.yaml'')
           (Inr (settled Success))" "''missing.yaml''" "''ConfigError''"]
    traceback_logged_for_init_failures_only
    [of "fixed_env (Inr ''source: {}'') (Inl (Exception ''ValidationError''))
           (Inr ''usage.yaml'') (Inr (settled Success))"
        "''usage.yaml''" "''ValidationError''" "''source: {}''"]
    traceback_logged_for_init_failures_only
    [of "fixed_env (Inr ''source: {}'') (Inr fresh) (Inr ''usage.yaml'')
           (Inl (Exception ''MemoryError''))"
        "''usage.yaml''" _ "''source: {}''" fresh "''usage.yaml''"]
  by (simp add: fixed_env_def)


subsection \<open>Order of the lifecycle calls\<close>

text \<open>
  Claim C9. In every run the lifecycle calls made are an initial part of the sequence
  \<open>load_config_file\<close>, \<open>UsageWorkflow.create\<close>, \<open>execute\<close>, \<open>stop\<close>, \<open>print_status\<close>,
  \<open>raise_from_status\<close>: each is called at most once, in that order. When one of them
  raises, it is the last lifecycle call of the run. The reporter is called at most
  once, and exactly once when \<open>load_config_file\<close> or \<open>create\<close> raises an \<open>Exception\<close>.
\<close>

theorem lifecycle_calls_once_in_order:
  "prefix (steps (snd (run_usage env p))) lifecycle \<and>
   length (reports (snd (run_usage env p))) \<le> 1 \<and>
   (load_config_file env p = Inl exc \<longrightarrow>
      steps (snd (run_usage env p)) = [Load_step]) \<and>
   (load_config_file env p = Inr c \<and> create env c = Inl exc \<longrightarrow>
      steps (snd (run_usage env p)) = [Load_step, Create_step]) \<and>
   (load_config_file env p = Inr c \<and> create env c = Inr w \<and> config_str env w = Inr s \<and>
    execute env w = Inl exc \<longrightarrow>
      steps (snd (run_usage env p)) = [Load_step, Create_step, Execute_step]) \<and>
   (load_config_file env p = Inr c \<and> create env c = Inr w \<and> config_str env w = Inr s \<and>
    execute env w = Inr w1 \<and> stop env w1 = Inl exc \<longrightarrow>
      steps (snd (run_usage env p)) = [Load_step, Create_step, Execute_step, Stop_step]) \<and>
   (load_config_file env p = Inr c \<and> create env c = Inr w \<and> config_str env w = Inr s \<and>
    execute env w = Inr w1 \<and> stop env w1 = Inr w2 \<and> print_status env w2 = Inl exc \<longrightarrow>
      steps (snd (run_usage env p)) =
        [Load_step, Create_step, Execute_step, Stop_step, Print_status_step]) \<and>
   (load_config_file env p = Inl (Exception m) \<longrightarrow>
      length (reports (snd (run_usage env p))) = 1) \<and>
   (load_config_file env p = Inr c \<and> create env c = Inl (Exception m) \<longrightarrow>
      length (reports (snd (run_usage env p))) = 1)"
proof (intro conjI impI)
  show "prefix (steps (snd (run_usage env p))) lifecycle"
  proof (cases "load_config_file env p")
    case (Inl e)
    then have "snd (run_usage env p) = [Load_config_file p] @ snd (except_Exception e None [])"
      by (simp only: run_usage_load_raises handler_appends [of e None "[Load_config_file p]"])
    then show ?thesis
      by (simp add: steps_append steps_handler steps_Cons steps_Nil lifecycle_def)
  next
    case (Inr cfg)
    note load = this
    show ?thesis
    proof (cases "create env cfg")
      case (Inl e)
      with load have "snd (run_usage env p) =
          [Load_config_file p, Create cfg] @ snd (except_Exception e (Some cfg) [])"
        by (simp only: run_usage_create_raises
            handler_appends [of e "Some cfg" "[Load_config_file p, Create cfg]"])
      then show ?thesis
        by (simp add: steps_append steps_handler steps_Cons steps_Nil lifecycle_def)
    next
      case (Inr wf)
      note made = this
      show ?thesis
      proof (cases "config_str env wf")
        case (Inl e)
        with load made have "snd (run_usage env p) =
            [Load_config_file p, Create cfg] @ snd (except_Exception e (Some cfg) [])"
          by (simp only: run_usage_config_str_raises
              handler_appends [of e "Some cfg" "[Load_config_file p, Create cfg]"])
        then show ?thesis
          by (simp add: steps_append steps_handler steps_Cons steps_Nil lifecycle_def)
      next
        case (Inr str)
        with load made have "snd (run_usage env p) =
            [Load_config_file p, Create cfg, Logger_debug (Using_config str)]
              @ snd (run_workflow env wf [])"
          by (simp only: run_usage_try_completes
              run_workflow_appends
                [of env wf "[Load_config_file p, Create cfg, Logger_debug (Using_config str)]"])
        then show ?thesis
          using steps_run_workflow [of env wf]
          by (simp add: steps_append steps_Cons steps_Nil lifecycle_def)
      qed
    qed
  qed
next
  show "length (reports (snd (run_usage env p))) \<le> 1"
    by (simp add: run_usage_def run_workflow_def except_Exception_def reports_def
        split: sum.split)
next
  assume "load_config_file env p = Inl exc"
  then have "snd (run_usage env p) = [Load_config_file p] @ snd (except_Exception exc None [])"
    by (simp only: run_usage_load_raises handler_appends [of exc None "[Load_config_file p]"])
  then show "steps (snd (run_usage env p)) = [Load_step]"
    by (simp add: steps_append steps_handler steps_Cons steps_Nil)
next
  assume "load_config_file env p = Inr c \<and> create env c = Inl exc"
  then have "snd (run_usage env p) =
      [Load_config_file p, Create c] @ snd (except_Exception exc (Some c) [])"
    by (simp only: run_usage_create_raises
        handler_appends [of exc "Some c" "[Load_config_file p, Create c]"])
  then show "steps (snd (run_usage env p)) = [Load_step, Create_step]"
    by (simp add: steps_append steps_handler steps_Cons steps_Nil)
next
  assume "load_config_file env p = Inr c \<and> create env c = Inr w \<and> config_str env w = Inr s \<and>
    execute env w = Inl exc"
  then show "steps (snd (run_usage env p)) = [Load_step, Create_step, Execute_step]"
    by (simp add: run_usage_try_completes run_workflow_execute_raises steps_Cons steps_Nil)
next
  assume "load_config_file env p = Inr c \<and> create env c = Inr w \<and> config_str env w = Inr s \<and>
    execute env w = Inr w1 \<and> stop env w1 = Inl exc"
  then show "steps (snd (run_usage env p)) = [Load_step, Create_step, Execute_step, Stop_step]"
    by (simp add: run_usage_try_completes run_workflow_stop_raises steps_Cons steps_Nil)
next
  assume "load_config_file env p = Inr c \<and> create env c = Inr w \<and> config_str env w = Inr s \<and>
    execute env w = Inr w1 \<and> stop env w1 = Inr w2 \<and> print_status env w2 = Inl exc"
  then show "steps (snd (run_usage env p)) =
      [Load_step, Create_step, Execute_step, Stop_step, Print_status_step]"
    by (simp add: run_usage_try_completes run_workflow_print_status_raises steps_Cons steps_Nil)
next
  assume "load_config_file env p = Inl (Exception m)"
  then show "length (reports (snd (run_usage env p))) = 1"
    by (simp add: run_usage_load_raises handler_Exception reports_def)
next
  assume "load_config_file env p = Inr c \<and> create env c = Inl (Exception m)"
  then show "length (reports (snd (run_usage env p))) = 1"
    by (simp add: run_usage_create_raises handler_Exception reports_def)
qed

theorem lifecycle_calls_once_in_order_witness:
  "steps (snd (run_usage
     (fixed_env (Inr ''source: {}'') (Inr fresh) (Inr ''usage.yaml'')
        (Inr (settled Success))) ''usage.yaml'')) = lifecycle \<and>
   steps (snd (run_usage
     (fixed_env (Inr ''source: {}'') (Inl (Exception ''ValidationError''))
        (Inr ''usage.yaml'') (Inr (settled Success))) ''usage.yaml''))
     = [Load_step, Create_step] \<and>
   length (reports (snd (run_usage
     (fixed_env (Inr ''source: {}'') (Inl (Exception ''ValidationError''))
        (Inr ''usage.yaml'') (Inr (settled Success))) ''usage.yaml''))) = 1"
proof -
  have full: "steps (snd (run_usage
     (fixed_env (Inr ''source: {}'') (Inr fresh) (Inr ''usage.yaml'')
        (Inr (settled Success))) ''usage.yaml'')) = lifecycle"
    by (simp add: fixed_env_def run_usage_def run_workflow_def settled_def wf_stop_def
        wf_print_status_def wf_raise_from_status_def steps_Cons steps_Nil lifecycle_def)
  show ?thesis
    using full lifecycle_calls_once_in_order
      [of "fixed_env (Inr ''source: {}'') (Inl (Exception ''ValidationError''))
             (Inr ''usage.yaml'') (Inr (settled Success))"
          "''usage.yaml''" "Exception ''ValidationError''" "''source: {}''" _ _ _ _
          "''ValidationError''"]
    by (simp add: fixed_env_def)
qed

end
